theory Spec2Isabelle
  imports Main "HOL-Library.Multiset"
begin

section \<open>Flow-meter logger: the acquisition pipeline of record\_data.py\<close>

text \<open>
  The theory embeds \<^verbatim>\<open>init_csv\<close>, \<^verbatim>\<open>parse_block\<close> and the
  read loop of \<^verbatim>\<open>log_data\<close>. A Python \<^verbatim>\<open>str\<close> is a \<open>string\<close>
  whose characters stand for the code points 0 to 255; an exception is the \<open>Inl\<close> of a
  sum; the locals and lists that the code mutates are fields of records that are passed on.
\<close>

subsection \<open>Character classes\<close>

text \<open>\<^verbatim>\<open>\d\<close> of a \<^verbatim>\<open>str\<close> pattern: the decimal digits; below code point 256
  these are \<^verbatim>\<open>0\<close> to \<^verbatim>\<open>9\<close>.\<close>

definition is_digit :: "char \<Rightarrow> bool" where
  "is_digit c = (c \<in> set ''0123456789'')"

text \<open>\<^verbatim>\<open>\s\<close> and the characters removed by \<^verbatim>\<open>str.strip()\<close>: tab, line feed,
  vertical tab, form feed, carriage return, the separators 0x1C to 0x1F, space, 0x85 and 0xA0.\<close>

definition is_space :: "char \<Rightarrow> bool" where
  "is_space c = (c \<in> set [CHR 0x09, CHR 0x0A, CHR 0x0B, CHR 0x0C, CHR 0x0D,
                            CHR 0x1C, CHR 0x1D, CHR 0x1E, CHR 0x1F, CHR 0x20,
                            CHR 0x85, CHR 0xA0])"

text \<open>The class \<^verbatim>\<open>[\d.]\<close>.\<close>

definition is_num_char :: "char \<Rightarrow> bool" where
  "is_num_char c = (is_digit c \<or> c = CHR ''.'')"

definition digit_val :: "char \<Rightarrow> nat" where
  "digit_val c = of_char c - 48"

definition nat_of_digits :: "string \<Rightarrow> nat" where
  "nat_of_digits ds = foldl (\<lambda>n c. 10 * n + digit_val c) 0 ds"

subsection \<open>Errors\<close>

datatype py_error = ValueError

definition bind_err :: "'e + 'a \<Rightarrow> ('a \<Rightarrow> 'e + 'b) \<Rightarrow> 'e + 'b" where
  "bind_err r f = (case r of Inl e \<Rightarrow> Inl e | Inr v \<Rightarrow> f v)"

subsection \<open>The regular expressions\<close>

text \<open>A literal piece of a pattern: the rest of the text after the literal, if it is there.\<close>

fun lit :: "string \<Rightarrow> string \<Rightarrow> string option" where
  "lit [] s = Some s"
| "lit (p # ps) [] = None"
| "lit (p # ps) (c # cs) = (if p = c then lit ps cs else None)"

text \<open>\<^verbatim>\<open>pattern.search(line)\<close>: the match at the leftmost position that has one. The
  argument \<open>m\<close> matches the pattern at the start of a text; the positions tried are every
  suffix of the line, the empty one included.\<close>

fun search :: "(string \<Rightarrow> 'a option) \<Rightarrow> string \<Rightarrow> 'a option" where
  "search m [] = m []"
| "search m (c # cs) = (case m (c # cs) of Some g \<Rightarrow> Some g | None \<Rightarrow> search m cs)"

text \<open>\<^verbatim>\<open>LABEL\s*(?P<g>[\d.]+)\<close> at the start of a text, returning the group. Both
  repetitions are greedy, and the character after each maximal run is outside the class of the
  run, so no shorter run can match where the maximal one does not.\<close>

definition labelled :: "string \<Rightarrow> string \<Rightarrow> string option" where
  "labelled label s =
     (case lit label s of
        None \<Rightarrow> None
      | Some r \<Rightarrow>
          (let g = takeWhile is_num_char (dropWhile is_space r)
           in if g = [] then None else Some g))"

text \<open>\<^verbatim>\<open>UP:(?P<up>[\d.]+),DN:(?P<dn>[\d.]+),Q=(?P<q>\d+)\<close> at the start of a text.\<close>

definition up_dn_q_at :: "string \<Rightarrow> (string \<times> string \<times> string) option" where
  "up_dn_q_at s =
     (case lit ''UP:'' s of
        None \<Rightarrow> None
      | Some r1 \<Rightarrow>
          if takeWhile is_num_char r1 = [] then None
          else (case lit '',DN:'' (dropWhile is_num_char r1) of
             None \<Rightarrow> None
           | Some r2 \<Rightarrow>
               if takeWhile is_num_char r2 = [] then None
               else (case lit '',Q='' (dropWhile is_num_char r2) of
                  None \<Rightarrow> None
                | Some r3 \<Rightarrow>
                    if takeWhile is_digit r3 = [] then None
                    else Some (takeWhile is_num_char r1, takeWhile is_num_char r2,
                               takeWhile is_digit r3))))"

definition UP_DN_Q_RE :: "string \<Rightarrow> (string \<times> string \<times> string) option" where
  "UP_DN_Q_RE line = search up_dn_q_at line"

definition FLOW_RE :: "string \<Rightarrow> string option" where
  "FLOW_RE line = search (labelled ''FLOW:'') line"

definition VEL_RE :: "string \<Rightarrow> string option" where
  "VEL_RE line = search (labelled ''VEL:'') line"

definition FVEL_RE :: "string \<Rightarrow> string option" where
  "FVEL_RE line = search (labelled ''FVEL:'') line"

text \<open>\<^verbatim>\<open>re.match(r"\d{2}-\d{2}-\d{2}", line)\<close>: anchored at the start of the line.\<close>

definition date_prefix :: "string \<Rightarrow> bool" where
  "date_prefix line =
     (case line of
        d1 # d2 # s1 # m1 # m2 # s2 # y1 # y2 # _ \<Rightarrow>
          is_digit d1 \<and> is_digit d2 \<and> s1 = CHR ''-'' \<and> is_digit m1 \<and> is_digit m2 \<and>
          s2 = CHR ''-'' \<and> is_digit y1 \<and> is_digit y2
      | _ \<Rightarrow> False)"

subsection \<open>Conversions\<close>

text \<open>
  A Python float is modelled by the decimal it was read from: \<open>Dec m e\<close> is
  \<open>m / 10 ^ e\<close>, with the trailing zeros of the fraction removed, so that two texts of
  the same value give the same \<open>pyfloat\<close>. The model is exact for values of at most 15
  significant digits; a double cannot tell longer decimals apart, which the model does.
  The target flow of a session, a float that the operator enters, has the same type.
\<close>

datatype pyfloat = Dec nat nat

text \<open>\<^verbatim>\<open>float(text)\<close> for a text of digits and dots, which is all that the groups
  \<^verbatim>\<open>[\d.]+\<close> capture: at most one dot and at least one digit, or ValueError.\<close>

definition strip_zeros :: "string \<Rightarrow> string" where
  "strip_zeros ds = rev (dropWhile (\<lambda>c. c = CHR ''0'') (rev ds))"

definition py_float :: "string \<Rightarrow> py_error + pyfloat" where
  "py_float txt =
     (let ip = takeWhile is_digit txt;
          r = dropWhile is_digit txt;
          fp = (case r of [] \<Rightarrow> [] | c # cs \<Rightarrow> cs)
      in if (r = [] \<or> (hd r = CHR ''.'' \<and> list_all is_digit fp)) \<and> ip @ fp \<noteq> []
         then Inr (Dec (nat_of_digits (ip @ strip_zeros fp)) (length (strip_zeros fp)))
         else Inl ValueError)"

text \<open>\<^verbatim>\<open>int(text)\<close> for a text of digits. CPython refuses a decimal text of more than
  4300 digits with ValueError.\<close>

definition py_int :: "string \<Rightarrow> py_error + nat" where
  "py_int txt = (if 4300 < length txt then Inl ValueError else Inr (nat_of_digits txt))"

subsection \<open>Timestamps\<close>

record datetime =
  year :: nat
  month :: nat
  day :: nat
  hour :: nat
  minute :: nat
  second :: nat

text \<open>
  \<^verbatim>\<open>datetime.strptime(line, "%d-%m-%y %H:%M:%S")\<close>. The library turns the format into
  a regular expression, matches it at the start of the text with backtracking, and raises
  ValueError when there is no match or when text remains after the match. Each piece of the
  expression is modelled by the list of its matches in the order in which backtracking tries
  them; the first match of the whole expression is the head of the list.

  A numeric directive tries its two-digit alternatives before its one-digit one:
  \<^verbatim>\<open>%d\<close> is 01 to 31 or 1 to 9, \<^verbatim>\<open>%m\<close> is 01 to 12 or 1 to 9, \<^verbatim>\<open>%H\<close> is 00 to
  23 or 0 to 9, \<^verbatim>\<open>%M\<close> is 00 to 59 or 0 to 9, \<^verbatim>\<open>%S\<close> is 00 to 61 or 0 to 9, and
  \<^verbatim>\<open>%y\<close> is exactly two digits. (Recent versions also let \<^verbatim>\<open>%d\<close> be a space and a
  digit; \<^verbatim>\<open>parse_block\<close> calls strptime only on a line that begins with a digit.)
\<close>

definition two_digits :: "string \<Rightarrow> (nat \<times> string) list" where
  "two_digits s =
     (case s of
        a # b # r \<Rightarrow>
          if is_digit a \<and> is_digit b then [(10 * digit_val a + digit_val b, r)] else []
      | _ \<Rightarrow> [])"

definition one_digit :: "string \<Rightarrow> (nat \<times> string) list" where
  "one_digit s = (case s of a # r \<Rightarrow> if is_digit a then [(digit_val a, r)] else [] | _ \<Rightarrow> [])"

definition num_field :: "nat \<Rightarrow> nat \<Rightarrow> string \<Rightarrow> (nat \<times> string) list" where
  "num_field lo hi s =
     filter (\<lambda>vr. lo \<le> fst vr \<and> fst vr \<le> hi) (two_digits s) @
     filter (\<lambda>vr. lo \<le> fst vr) (one_digit s)"

definition lits :: "string \<Rightarrow> string \<Rightarrow> string list" where
  "lits p s = (case lit p s of None \<Rightarrow> [] | Some r \<Rightarrow> [r])"

text \<open>The space of the format stands for \<^verbatim>\<open>\s+\<close>: the longest run first.\<close>

definition spaces1 :: "string \<Rightarrow> string list" where
  "spaces1 s = map (\<lambda>k. drop k s) (rev [1 ..< Suc (length (takeWhile is_space s))])"

definition strptime_matches ::
  "string \<Rightarrow> ((nat \<times> nat \<times> nat \<times> nat \<times> nat \<times> nat) \<times> string) list" where
  "strptime_matches s =
     List.bind (num_field 1 31 s) (\<lambda>(d, r1).
     List.bind (lits ''-'' r1) (\<lambda>r2.
     List.bind (num_field 1 12 r2) (\<lambda>(m, r3).
     List.bind (lits ''-'' r3) (\<lambda>r4.
     List.bind (two_digits r4) (\<lambda>(y, r5).
     List.bind (spaces1 r5) (\<lambda>r6.
     List.bind (num_field 0 23 r6) (\<lambda>(H, r7).
     List.bind (lits '':'' r7) (\<lambda>r8.
     List.bind (num_field 0 59 r8) (\<lambda>(M, r9).
     List.bind (lits '':'' r9) (\<lambda>r10.
     List.bind (num_field 0 61 r10) (\<lambda>(S, r11).
       [((d, m, y, H, M, S), r11)])))))))))))"

definition is_leap :: "nat \<Rightarrow> bool" where
  "is_leap y = (if y mod 100 = 0 then y mod 400 = 0 else y mod 4 = 0)"

definition days_in_month :: "nat \<Rightarrow> nat \<Rightarrow> nat" where
  "days_in_month y m =
     (if m = 2 then (if is_leap y then 29 else 28)
      else if m \<in> set [4, 6, 9, 11] then 30 else 31)"

text \<open>After the match: a two-digit year up to 68 is in 2000 to 2068, any other in 1969 to
  1999; a day beyond the end of the month and a second above 59 are refused by the
  \<^verbatim>\<open>datetime\<close> constructor with ValueError.\<close>

definition strptime :: "string \<Rightarrow> py_error + datetime" where
  "strptime s =
     (case strptime_matches s of
        [] \<Rightarrow> Inl ValueError
      | ((d, m, y, H, M, S), rest) # _ \<Rightarrow>
          (let yr = (if y \<le> 68 then 2000 + y else 1900 + y)
           in if rest = [] \<and> d \<le> days_in_month yr m \<and> S \<le> 59
              then Inr \<lparr>year = yr, month = m, day = d, hour = H, minute = M, second = S\<rparr>
              else Inl ValueError))"

text \<open>Decimal digits of a number, and \<^verbatim>\<open>strftime("%Y-%m-%d %H:%M:%S")\<close>: the year in
  four digits, the other fields in two.\<close>

fun digits :: "nat \<Rightarrow> string" where
  "digits n =
     (if n < 10 then [''0123456789'' ! n] else digits (n div 10) @ [''0123456789'' ! (n mod 10)])"

declare digits.simps [simp del]

definition zfill :: "nat \<Rightarrow> string \<Rightarrow> string" where
  "zfill w s = replicate (w - length s) (CHR ''0'') @ s"

definition strftime :: "datetime \<Rightarrow> string" where
  "strftime t =
     zfill 4 (digits (year t)) @ ''-'' @ zfill 2 (digits (month t)) @ ''-'' @
     zfill 2 (digits (day t)) @ '' '' @ zfill 2 (digits (hour t)) @ '':'' @
     zfill 2 (digits (minute t)) @ '':'' @ zfill 2 (digits (second t))"

subsection \<open>parse\_block\<close>

text \<open>The seven locals of \<^verbatim>\<open>parse_block\<close>; \<open>None\<close> is Python's \<^verbatim>\<open>None\<close>.\<close>

record locals =
  timestamp :: "datetime option"
  up :: "pyfloat option"
  down :: "pyfloat option"
  q :: "nat option"
  flow :: "pyfloat option"
  vel :: "pyfloat option"
  fvel :: "pyfloat option"

definition no_locals :: locals where
  "no_locals = \<lparr>timestamp = None, up = None, down = None, q = None, flow = None,
                 vel = None, fvel = None\<rparr>"

text \<open>The five \<^verbatim>\<open>if\<close> statements of the loop body, one per kind of pattern.\<close>

datatype kind = Timestamp | UpDnQ | Flow | Vel | FVel

fun apply_rule :: "kind \<Rightarrow> string \<Rightarrow> locals \<Rightarrow> py_error + locals" where
  "apply_rule Timestamp line a =
     (if date_prefix line
      then bind_err (strptime line) (\<lambda>t. Inr (a\<lparr>timestamp := Some t\<rparr>))
      else Inr a)"
| "apply_rule UpDnQ line a =
     (case UP_DN_Q_RE line of
        Some (gu, gd, gq) \<Rightarrow>
          bind_err (py_float gu) (\<lambda>u.
          bind_err (py_float gd) (\<lambda>d.
          bind_err (py_int gq) (\<lambda>n.
            Inr (a\<lparr>up := Some u, down := Some d, q := Some n\<rparr>))))
      | None \<Rightarrow> Inr a)"
| "apply_rule Flow line a =
     (case FLOW_RE line of
        Some g \<Rightarrow> bind_err (py_float g) (\<lambda>x. Inr (a\<lparr>flow := Some x\<rparr>))
      | None \<Rightarrow> Inr a)"
| "apply_rule Vel line a =
     (case VEL_RE line of
        Some g \<Rightarrow> bind_err (py_float g) (\<lambda>x. Inr (a\<lparr>vel := Some x\<rparr>))
      | None \<Rightarrow> Inr a)"
| "apply_rule FVel line a =
     (case FVEL_RE line of
        Some g \<Rightarrow> bind_err (py_float g) (\<lambda>x. Inr (a\<lparr>fvel := Some x\<rparr>))
      | None \<Rightarrow> Inr a)"

text \<open>The body of \<^verbatim>\<open>for line in lines\<close>, in the order of the source.\<close>

definition scan_line :: "string \<Rightarrow> locals \<Rightarrow> py_error + locals" where
  "scan_line line a0 =
     bind_err (apply_rule Timestamp line a0) (\<lambda>a1.
     bind_err (apply_rule UpDnQ line a1) (\<lambda>a2.
     bind_err (apply_rule Flow line a2) (\<lambda>a3.
     bind_err (apply_rule Vel line a3) (\<lambda>a4.
     apply_rule FVel line a4))))"

fun scan :: "string list \<Rightarrow> locals \<Rightarrow> py_error + locals" where
  "scan [] a = Inr a"
| "scan (line # rest) a = bind_err (scan_line line a) (scan rest)"

text \<open>A cell of the row that goes to \<^verbatim>\<open>csv.writer\<close>: a \<^verbatim>\<open>str\<close>, a \<^verbatim>\<open>float\<close> or
  an \<^verbatim>\<open>int\<close>.\<close>

datatype cell = CStr string | CFloat pyfloat | CInt nat

type_synonym parsed = "datetime \<times> cell list \<times> pyfloat"

text \<open>The end of \<^verbatim>\<open>parse_block\<close>: \<^verbatim>\<open>None\<close> when a local is still \<^verbatim>\<open>None\<close>,
  else the triple of the timestamp, the row and the flow.\<close>

definition assemble :: "locals \<Rightarrow> pyfloat \<Rightarrow> parsed option" where
  "assemble a target_flow =
     (case (timestamp a, up a, down a, q a, flow a, vel a, fvel a) of
        (Some t, Some u, Some d, Some n, Some f, Some v, Some w) \<Rightarrow>
          Some (t, [CStr (strftime t), CFloat target_flow, CFloat u, CFloat d, CInt n,
                    CFloat f, CFloat v, CFloat w], f)
      | _ \<Rightarrow> None)"

definition parse_block :: "string list \<Rightarrow> pyfloat \<Rightarrow> py_error + parsed option" where
  "parse_block lines target_flow =
     bind_err (scan lines no_locals) (\<lambda>a. Inr (assemble a target_flow))"

subsection \<open>The rules in any order, and the last match of each kind\<close>

text \<open>The five rules applied to a line in the order of a list, and \<^verbatim>\<open>parse_block\<close>
  with that order in place of the order of the source, \<open>rule_order\<close>.\<close>

definition rule_order :: "kind list" where
  "rule_order = [Timestamp, UpDnQ, Flow, Vel, FVel]"




text \<open>The condition of the \<^verbatim>\<open>if\<close> of each kind: the line matches the pattern.\<close>

fun matches :: "kind \<Rightarrow> string \<Rightarrow> bool" where
  "matches Timestamp line = date_prefix line"
| "matches UpDnQ line = (UP_DN_Q_RE line \<noteq> None)"
| "matches Flow line = (FLOW_RE line \<noteq> None)"
| "matches Vel line = (VEL_RE line \<noteq> None)"
| "matches FVel line = (FVEL_RE line \<noteq> None)"

text \<open>The last line of a frame that matches the pattern of a kind.\<close>

definition last_of :: "kind \<Rightarrow> string list \<Rightarrow> string option" where
  "last_of k frame = find (matches k) (rev frame)"

text \<open>The value that one line gives to each field: the conversion of what the pattern of
  the field captures in it, \<open>None\<close> where the line has no value for the field.\<close>

definition value_of :: "(py_error + 'a) option \<Rightarrow> 'a option" where
  "value_of r = (case r of Some (Inr v) \<Rightarrow> Some v | _ \<Rightarrow> None)"

definition line_timestamp :: "string \<Rightarrow> datetime option" where
  "line_timestamp line = value_of (if date_prefix line then Some (strptime line) else None)"

definition line_up :: "string \<Rightarrow> pyfloat option" where
  "line_up line = value_of (map_option (\<lambda>(gu, gd, gq). py_float gu) (UP_DN_Q_RE line))"

definition line_down :: "string \<Rightarrow> pyfloat option" where
  "line_down line = value_of (map_option (\<lambda>(gu, gd, gq). py_float gd) (UP_DN_Q_RE line))"

definition line_q :: "string \<Rightarrow> nat option" where
  "line_q line = value_of (map_option (\<lambda>(gu, gd, gq). py_int gq) (UP_DN_Q_RE line))"

definition line_flow :: "string \<Rightarrow> pyfloat option" where
  "line_flow line = value_of (map_option py_float (FLOW_RE line))"

definition line_vel :: "string \<Rightarrow> pyfloat option" where
  "line_vel line = value_of (map_option py_float (VEL_RE line))"

definition line_fvel :: "string \<Rightarrow> pyfloat option" where
  "line_fvel line = value_of (map_option py_float (FVEL_RE line))"

text \<open>The locals in which every field holds the value given by the last line of the frame
  that matches the pattern of its kind.\<close>

definition last_match_locals :: "string list \<Rightarrow> locals" where
  "last_match_locals frame =
     \<lparr>timestamp = Option.bind (last_of Timestamp frame) line_timestamp,
      up = Option.bind (last_of UpDnQ frame) line_up,
      down = Option.bind (last_of UpDnQ frame) line_down,
      q = Option.bind (last_of UpDnQ frame) line_q,
      flow = Option.bind (last_of Flow frame) line_flow,
      vel = Option.bind (last_of Vel frame) line_vel,
      fvel = Option.bind (last_of FVel frame) line_fvel\<rparr>"

text \<open>A line converts when, for every kind whose pattern matches it, the conversion of the
  captured text succeeds; \<open>store\<close> is the assignment that the rule of a kind then makes.\<close>

fun converts_kind :: "kind \<Rightarrow> string \<Rightarrow> bool" where
  "converts_kind Timestamp line = (line_timestamp line \<noteq> None)"
| "converts_kind UpDnQ line =
     (line_up line \<noteq> None \<and> line_down line \<noteq> None \<and> line_q line \<noteq> None)"
| "converts_kind Flow line = (line_flow line \<noteq> None)"
| "converts_kind Vel line = (line_vel line \<noteq> None)"
| "converts_kind FVel line = (line_fvel line \<noteq> None)"

definition converts :: "string \<Rightarrow> bool" where
  "converts line =
     list_all (\<lambda>k. if matches k line then converts_kind k line else True) rule_order"

fun store :: "kind \<Rightarrow> string \<Rightarrow> locals \<Rightarrow> locals" where
  "store Timestamp line a = a\<lparr>timestamp := line_timestamp line\<rparr>"
| "store UpDnQ line a = a\<lparr>up := line_up line, down := line_down line, q := line_q line\<rparr>"
| "store Flow line a = a\<lparr>flow := line_flow line\<rparr>"
| "store Vel line a = a\<lparr>vel := line_vel line\<rparr>"
| "store FVel line a = a\<lparr>fvel := line_fvel line\<rparr>"


text \<open>
  A match of the velocity pattern that is the line's own: at the start of the line, or at a
  position whose preceding character is not \<^verbatim>\<open>F\<close>. A match of \<^verbatim>\<open>VEL:\<close> after
  an \<^verbatim>\<open>F\<close> is the tail of a match of the filtered-velocity pattern \<^verbatim>\<open>FVEL:\<close>.
  \<open>matches_own\<close> asks for such a match for the velocity kind and is \<open>matches\<close> for
  the other kinds. In a frame with \<open>vel_only_in_fvel\<close> the velocity pattern matches,
  and every match of it is the tail of a filtered-velocity match.
\<close>

fun vel_after :: "string \<Rightarrow> bool" where
  "vel_after [] = False"
| "vel_after (c # cs) =
     (if c = CHR ''F'' then vel_after cs
      else if labelled ''VEL:'' cs = None then vel_after cs else True)"

definition own_vel :: "string \<Rightarrow> bool" where
  "own_vel line = (if labelled ''VEL:'' line = None then vel_after line else True)"

definition matches_own :: "kind \<Rightarrow> string \<Rightarrow> bool" where
  "matches_own k line = (if k = Vel then own_vel line else matches k line)"

definition all_kinds_own :: "string list \<Rightarrow> bool" where
  "all_kinds_own frame = list_all (\<lambda>k. list_ex (matches_own k) frame) rule_order"

definition vel_only_in_fvel :: "string list \<Rightarrow> bool" where
  "vel_only_in_fvel frame = (list_ex (matches Vel) frame \<and> \<not> list_ex own_vel frame)"

subsection \<open>The record store\<close>

text \<open>The content of the CSV file is the list of the rows written to it; \<open>None\<close> is a
  path at which no file exists.\<close>

type_synonym csv = "cell list list"

definition header :: "cell list" where
  "header = [CStr ''timestamp'', CStr ''target_flow'', CStr ''up'', CStr ''down'', CStr ''q'',
             CStr ''flow_ls'', CStr ''velocity_ms'', CStr ''fvel_ms'']"

text \<open>\<^verbatim>\<open>init_csv\<close>: the existence test, the open in append mode, which creates an absent
  file empty and leaves the content of a present one, and the header row for a new file.\<close>

definition init_csv :: "csv option \<Rightarrow> csv" where
  "init_csv file =
     (let exists = (file \<noteq> None);
          f = (case file of None \<Rightarrow> [] | Some rows \<Rightarrow> rows)
      in if \<not> exists then f @ [header] else f)"

text \<open>
  The text that \<^verbatim>\<open>csv.writer\<close> makes of a row, without the line terminator: the
  \<^verbatim>\<open>str\<close> of each cell, joined by commas. None of the texts written here holds a character
  that the writer quotes. \<^verbatim>\<open>str\<close> of a float is rendered for the values that Python
  prints in positional notation with their own digits: at most 15 significant digits, and zero
  or a magnitude from 0.0001; for the others the result is \<open>None\<close>.
\<close>

definition str_float :: "pyfloat \<Rightarrow> string option" where
  "str_float x =
     (case x of Dec m e \<Rightarrow>
        if m < 10 ^ 15 \<and> (m = 0 \<or> 10 ^ e \<le> m * 10 ^ 4)
        then Some (digits (m div 10 ^ e) @ ''.'' @
                   (if e = 0 then ''0'' else zfill e (digits (m mod 10 ^ e))))
        else None)"

definition str_cell :: "cell \<Rightarrow> string option" where
  "str_cell c = (case c of CStr s \<Rightarrow> Some s | CFloat x \<Rightarrow> str_float x | CInt n \<Rightarrow> Some (digits n))"

fun join_commas :: "string list \<Rightarrow> string" where
  "join_commas [] = []"
| "join_commas [s] = s"
| "join_commas (s # t # ts) = s @ '','' @ join_commas (t # ts)"

definition csv_text :: "cell list \<Rightarrow> string option" where
  "csv_text row =
     (if list_all (\<lambda>c. str_cell c \<noteq> None) row
      then Some (join_commas (map (\<lambda>c. the (str_cell c)) row))
      else None)"

subsection \<open>The read loop of log\_data\<close>

text \<open>\<^verbatim>\<open>str.strip()\<close> and \<^verbatim>\<open>str.startswith\<close>.\<close>

definition strip :: "string \<Rightarrow> string" where
  "strip s = rev (dropWhile is_space (rev (dropWhile is_space s)))"

definition startswith :: "string \<Rightarrow> string \<Rightarrow> bool" where
  "startswith s p = (take (length p) s = p)"

text \<open>What the loop changes: the local \<^verbatim>\<open>buffer\<close>, the file behind
  \<^verbatim>\<open>csv_writer\<close>, and the two lists shared with the plot.\<close>

record logger =
  buffer :: "string list"
  csv_file :: csv
  flow_values :: "pyfloat list"
  time_values :: "datetime list"

text \<open>
  One turn of the \<^verbatim>\<open>while\<close> loop, on the decoded text of the line that was read. An
  exception of \<^verbatim>\<open>parse_block\<close> is not caught: it leaves the loop, with the state as it
  is at the call (result \<open>Inl\<close>).
\<close>

definition log_step :: "pyfloat \<Rightarrow> logger \<Rightarrow> string \<Rightarrow> (py_error \<times> logger) + logger" where
  "log_step target_flow s raw =
     (let line = strip raw
      in if line = [] then Inr s
         else
           (let s1 = s\<lparr>buffer := buffer s @ [line]\<rparr>
            in if startswith line ''FVEL''
               then
                 (case parse_block (buffer s1) target_flow of
                    Inl e \<Rightarrow> Inl (e, s1)
                  | Inr parsed \<Rightarrow>
                      (let s2 = s1\<lparr>buffer := []\<rparr>
                       in case parsed of
                            None \<Rightarrow> Inr s2
                          | Some (t, csv_row, f) \<Rightarrow>
                              Inr (s2\<lparr>csv_file := csv_file s2 @ [csv_row],
                                      flow_values := flow_values s2 @ [f],
                                      time_values := time_values s2 @ [t]\<rparr>)))
               else Inr s1))"

text \<open>The loop over the lines that are read before the stop flag is seen.\<close>

fun log_loop :: "pyfloat \<Rightarrow> logger \<Rightarrow> string list \<Rightarrow> (py_error \<times> logger) + logger" where
  "log_loop target_flow s [] = Inr s"
| "log_loop target_flow s (raw # rest) =
     (case log_step target_flow s raw of
        Inl x \<Rightarrow> Inl x
      | Inr s' \<Rightarrow> log_loop target_flow s' rest)"

text \<open>\<^verbatim>\<open>log_data\<close>: the two lists are the caller's, the file is the one at
  \<^verbatim>\<open>CSV_FILE\<close>, the buffer starts empty.\<close>

definition log_data ::
  "pyfloat \<Rightarrow> pyfloat list \<Rightarrow> datetime list \<Rightarrow> csv option \<Rightarrow> string list \<Rightarrow>
   (py_error \<times> logger) + logger" where
  "log_data target_flow fvs tvs file reads =
     log_loop target_flow
       \<lparr>buffer = [], csv_file = init_csv file, flow_values = fvs, time_values = tvs\<rparr>
       reads"

text \<open>The state in which the \<^verbatim>\<open>finally\<close> clause finds the session, whichever way the
  loop was left.\<close>

definition final :: "(py_error \<times> logger) + logger \<Rightarrow> logger" where
  "final r = (case r of Inl (e, s) \<Rightarrow> s | Inr s \<Rightarrow> s)"

subsection \<open>The scenarios of the specification\<close>

definition scenario_a :: "string list" where
  "scenario_a = [''01-01-24 12:00:00'', ''UP:10.2,DN:9.8,Q=3'', ''FLOW: 1.523'',
                 ''VEL: 0.44'', ''FVEL: 0.41'']"

definition scenario_b :: "string list" where
  "scenario_b = [''01-01-24 12:00:00'', ''UP:10.2,DN:9.8,Q=3'', ''FLOW: 1.523'',
                 ''FVEL: 0.41'']"

text \<open>The rows that a session appends to the file: those that its loop, started with an
  empty buffer, leaves in a file that was empty.\<close>

definition session_rows :: "pyfloat \<Rightarrow> string list \<Rightarrow> csv" where
  "session_rows target_flow reads =
     csv_file (final (log_loop target_flow
       \<lparr>buffer = [], csv_file = [], flow_values = [], time_values = []\<rparr> reads))"

text \<open>Auxiliary notions for the store: a state with rows, flows and times put in front of
  its own; a data row of a session, which carries the target in its second cell and is not the
  header; and the state of a session on a new file with given lines in the buffer.\<close>

definition shift :: "csv \<Rightarrow> pyfloat list \<Rightarrow> datetime list \<Rightarrow> logger \<Rightarrow> logger" where
  "shift c f g s = s\<lparr>csv_file := c @ csv_file s, flow_values := f @ flow_values s,
                      time_values := g @ time_values s\<rparr>"

definition data_row :: "pyfloat \<Rightarrow> cell list \<Rightarrow> bool" where
  "data_row t row = (row ! 1 = CFloat t \<and> row \<noteq> header)"

definition fresh_with :: "string list \<Rightarrow> logger" where
  "fresh_with b = \<lparr>buffer = b, csv_file = [header], flow_values = [], time_values = []\<rparr>"

text \<open>Two frames used below: one in which every kind of pattern matches and the flow token
  is no number, and one whose last line begins with \<^verbatim>\<open>FVEL\<close> and holds a velocity
  and a filtered velocity of its own.\<close>

definition malformed_frame :: "string list" where
  "malformed_frame = [''01-01-24 12:00:00'', ''UP:10.2,DN:9.8,Q=3'', ''FLOW: 1.2.3'',
                      ''VEL: 0.44'', ''FVEL: 0.41'']"

definition overlap_frame :: "string list" where
  "overlap_frame = [''01-01-24 12:00:00'', ''UP:10.2,DN:9.8,Q=3'', ''FLOW: 1.523'',
                    ''FVELVEL: 1 FVEL: 2'']"

section \<open>Properties\<close>

subsection \<open>The scan of a frame\<close>

lemma bind_err_simps [simp]:
  "bind_err (Inl e) f = Inl e" "bind_err (Inr v) f = f v"
  by (simp_all add: bind_err_def)

lemma bind_err_Inr_iff: "bind_err r f = Inr y \<longleftrightarrow> (\<exists>v. r = Inr v \<and> f v = Inr y)"
  by (cases r) simp_all

lemma py_error_eq [simp]: "(e :: py_error) = ValueError"
  by (cases e) simp

lemma search_at_start: "m s = Some g \<Longrightarrow> search m s = Some g"
  by (cases s) simp_all

lemma search_Cons_not_None: "search m cs \<noteq> None \<Longrightarrow> search m (c # cs) \<noteq> None"
  by (cases "m (c # cs)") simp_all

lemma scan_append: "scan (xs @ ys) a = bind_err (scan xs a) (scan ys)"
  by (induction xs arbitrary: a) (simp_all add: bind_err_def split: sum.splits)

lemma last_of_snoc: "last_of k (frame @ [line]) = (if matches k line then Some line else last_of k frame)"
  by (simp add: last_of_def)

lemma last_of_Nil: "last_of k [] = None"
  by (simp add: last_of_def)

lemma rule_Timestamp:
  "apply_rule Timestamp line a = Inr b \<Longrightarrow>
     b = a\<lparr>timestamp := if matches Timestamp line then line_timestamp line else timestamp a\<rparr> \<and>
     (matches Timestamp line \<longrightarrow> line_timestamp line \<noteq> None)"
  by (auto simp: line_timestamp_def value_of_def bind_err_Inr_iff split: if_splits)

lemma rule_UpDnQ:
  "apply_rule UpDnQ line a = Inr b \<Longrightarrow>
     b = a\<lparr>up := if matches UpDnQ line then line_up line else up a,
           down := if matches UpDnQ line then line_down line else down a,
           q := if matches UpDnQ line then line_q line else q a\<rparr> \<and>
     (matches UpDnQ line \<longrightarrow> line_up line \<noteq> None \<and> line_down line \<noteq> None \<and> line_q line \<noteq> None)"
  by (auto simp: line_up_def line_down_def line_q_def value_of_def bind_err_Inr_iff split: if_splits option.splits)

lemma rule_Flow:
  "apply_rule Flow line a = Inr b \<Longrightarrow>
     b = a\<lparr>flow := if matches Flow line then line_flow line else flow a\<rparr> \<and>
     (matches Flow line \<longrightarrow> line_flow line \<noteq> None)"
  by (auto simp: line_flow_def value_of_def bind_err_Inr_iff split: if_splits option.splits)

lemma rule_Vel:
  "apply_rule Vel line a = Inr b \<Longrightarrow>
     b = a\<lparr>vel := if matches Vel line then line_vel line else vel a\<rparr> \<and>
     (matches Vel line \<longrightarrow> line_vel line \<noteq> None)"
  by (auto simp: line_vel_def value_of_def bind_err_Inr_iff split: if_splits option.splits)

lemma rule_FVel:
  "apply_rule FVel line a = Inr b \<Longrightarrow>
     b = a\<lparr>fvel := if matches FVel line then line_fvel line else fvel a\<rparr> \<and>
     (matches FVel line \<longrightarrow> line_fvel line \<noteq> None)"
  by (auto simp: line_fvel_def value_of_def bind_err_Inr_iff split: if_splits option.splits)


lemma apply_rule_alt:
  "apply_rule k line a =
     (if matches k line
      then if converts_kind k line then Inr (store k line a) else Inl ValueError
      else Inr a)"
proof (cases k)
  case Timestamp
  then show ?thesis
    by (cases "strptime line") (simp_all add: line_timestamp_def value_of_def)
next
  case UpDnQ
  show ?thesis
  proof (cases "UP_DN_Q_RE line")
    case None
    then show ?thesis using UpDnQ by simp
  next
    case (Some g)
    obtain gu gd gq where g: "g = (gu, gd, gq)" by (cases g)
    show ?thesis
      unfolding UpDnQ using Some g
      by (cases "py_float gu"; cases "py_float gd"; cases "py_int gq")
        (simp_all add: line_up_def line_down_def line_q_def value_of_def)
  qed
next
  case Flow
  show ?thesis
  proof (cases "FLOW_RE line")
    case None
    then show ?thesis using Flow by simp
  next
    case (Some g)
    then show ?thesis
      unfolding Flow by (cases "py_float g") (simp_all add: line_flow_def value_of_def)
  qed
next
  case Vel
  show ?thesis
  proof (cases "VEL_RE line")
    case None
    then show ?thesis using Vel by simp
  next
    case (Some g)
    then show ?thesis
      unfolding Vel by (cases "py_float g") (simp_all add: line_vel_def value_of_def)
  qed
next
  case FVel
  show ?thesis
  proof (cases "FVEL_RE line")
    case None
    then show ?thesis using FVel by simp
  next
    case (Some g)
    then show ?thesis
      unfolding FVel by (cases "py_float g") (simp_all add: line_fvel_def value_of_def)
  qed
qed









lemma apply_rule_Inr_converts:
  "apply_rule k line a = Inr b \<Longrightarrow> (if matches k line then converts_kind k line else True)"
  by (simp add: apply_rule_alt split: if_splits)


lemma scan_line_Inr:
  assumes "scan_line line a = Inr b"
  shows "b = \<lparr>timestamp = (if matches Timestamp line then line_timestamp line else timestamp a),
              up = (if matches UpDnQ line then line_up line else up a),
              down = (if matches UpDnQ line then line_down line else down a),
              q = (if matches UpDnQ line then line_q line else q a),
              flow = (if matches Flow line then line_flow line else flow a),
              vel = (if matches Vel line then line_vel line else vel a),
              fvel = (if matches FVel line then line_fvel line else fvel a)\<rparr>"
    and "converts line"
proof -
  from assms obtain a1 a2 a3 a4 where
    r1: "apply_rule Timestamp line a = Inr a1" and
    r2: "apply_rule UpDnQ line a1 = Inr a2" and
    r3: "apply_rule Flow line a2 = Inr a3" and
    r4: "apply_rule Vel line a3 = Inr a4" and
    r5: "apply_rule FVel line a4 = Inr b"
    unfolding scan_line_def bind_err_Inr_iff by blast
  note f1 = rule_Timestamp [OF r1] and f2 = rule_UpDnQ [OF r2] and f3 = rule_Flow [OF r3]
    and f4 = rule_Vel [OF r4] and f5 = rule_FVel [OF r5]
  show "converts line"
    using apply_rule_Inr_converts [OF r1] apply_rule_Inr_converts [OF r2]
      apply_rule_Inr_converts [OF r3] apply_rule_Inr_converts [OF r4]
      apply_rule_Inr_converts [OF r5]
    by (simp add: converts_def rule_order_def del: matches.simps converts_kind.simps)
  have "b = a\<lparr>timestamp := if matches Timestamp line then line_timestamp line else timestamp a,
              up := if matches UpDnQ line then line_up line else up a,
              down := if matches UpDnQ line then line_down line else down a,
              q := if matches UpDnQ line then line_q line else q a,
              flow := if matches Flow line then line_flow line else flow a,
              vel := if matches Vel line then line_vel line else vel a,
              fvel := if matches FVel line then line_fvel line else fvel a\<rparr>"
    using f1 f2 f3 f4 f5 by simp
  then show "b = \<lparr>timestamp = (if matches Timestamp line then line_timestamp line else timestamp a),
              up = (if matches UpDnQ line then line_up line else up a),
              down = (if matches UpDnQ line then line_down line else down a),
              q = (if matches UpDnQ line then line_q line else q a),
              flow = (if matches Flow line then line_flow line else flow a),
              vel = (if matches Vel line then line_vel line else vel a),
              fvel = (if matches FVel line then line_fvel line else fvel a)\<rparr>"
    by simp
qed


lemma last_match_locals_Nil: "last_match_locals [] = no_locals"
  by (simp add: last_match_locals_def no_locals_def last_of_Nil)

lemma scan_last_match:
  "scan frame no_locals = Inr a \<Longrightarrow> a = last_match_locals frame"
proof (induction frame arbitrary: a rule: rev_induct)
  case Nil
  then show ?case by (simp add: last_match_locals_Nil)
next
  case (snoc x xs)
  from snoc.prems obtain a1 where xs: "scan xs no_locals = Inr a1" and x: "scan_line x a1 = Inr a"
    by (auto simp: scan_append bind_err_Inr_iff)
  have a1: "a1 = last_match_locals xs" by (rule snoc.IH [OF xs])
  show ?case
    unfolding scan_line_Inr(1) [OF x] a1
    by (simp add: last_match_locals_def last_of_snoc)
qed








lemma parse_block_Inr:
  assumes "parse_block frame t = Inr res"
  shows "res = assemble (last_match_locals frame) t"
proof -
  from assms obtain a where a: "scan frame no_locals = Inr a" and res: "res = assemble a t"
    by (auto simp: parse_block_def bind_err_Inr_iff)
  show ?thesis using res scan_last_match [OF a] by simp
qed









subsection \<open>The scenarios\<close>

lemma parse_scenario_a:
  "parse_block scenario_a (Dec 15 1) =
     Inr (Some (\<lparr>year = 2024, month = 1, day = 1, hour = 12, minute = 0, second = 0\<rparr>,
                [CStr ''2024-01-01 12:00:00'', CFloat (Dec 15 1), CFloat (Dec 102 1),
                 CFloat (Dec 98 1), CInt 3, CFloat (Dec 1523 3), CFloat (Dec 41 2),
                 CFloat (Dec 41 2)],
                Dec 1523 3))"
  by code_simp

lemma csv_text_scenario_a:
  "csv_text [CStr ''2024-01-01 12:00:00'', CFloat (Dec 15 1), CFloat (Dec 102 1),
             CFloat (Dec 98 1), CInt 3, CFloat (Dec 1523 3), CFloat (Dec 41 2),
             CFloat (Dec 41 2)] =
     Some ''2024-01-01 12:00:00,1.5,10.2,9.8,3,1.523,0.41,0.41''"
  by (simp add: csv_text_def str_cell_def str_float_def zfill_def digits.simps)

lemma py_float_044: "py_float ''0.44'' = Inr (Dec 44 2)"
  by code_simp

text \<open>
  Claim C1. For the five-line frame of Scenario A and target flow 1.5 the code returns a
  complete record, but the velocity cell of its row is 0.41 and not 0.44: the pattern
  \<^verbatim>\<open>VEL:\<close> is searched anywhere in a line, so it also matches inside the later line
  \<^verbatim>\<open>FVEL: 0.41\<close> and overrides the value read from \<^verbatim>\<open>VEL: 0.44\<close>. The text of
  the row is \<^verbatim>\<open>2024-01-01 12:00:00,1.5,10.2,9.8,3,1.523,0.41,0.41\<close>.
\<close>

theorem scenario_a_row:
  "parse_block scenario_a (Dec 15 1) =
     Inr (Some (\<lparr>year = 2024, month = 1, day = 1, hour = 12, minute = 0, second = 0\<rparr>,
                [CStr ''2024-01-01 12:00:00'', CFloat (Dec 15 1), CFloat (Dec 102 1),
                 CFloat (Dec 98 1), CInt 3, CFloat (Dec 1523 3), CFloat (Dec 41 2),
                 CFloat (Dec 41 2)],
                Dec 1523 3)) \<and>
   csv_text [CStr ''2024-01-01 12:00:00'', CFloat (Dec 15 1), CFloat (Dec 102 1),
             CFloat (Dec 98 1), CInt 3, CFloat (Dec 1523 3), CFloat (Dec 41 2),
             CFloat (Dec 41 2)] =
     Some ''2024-01-01 12:00:00,1.5,10.2,9.8,3,1.523,0.41,0.41'' \<and>
   py_float ''0.44'' = Inr (Dec 44 2)"
  by (intro conjI) (rule parse_scenario_a, rule csv_text_scenario_a, rule py_float_044)

lemma vel_re_fvel_line: "VEL_RE ''FVEL: 0.41'' = Some ''0.41''"
  by code_simp

lemma parse_scenario_b:
  "parse_block scenario_b (Dec 15 1) =
     Inr (Some (\<lparr>year = 2024, month = 1, day = 1, hour = 12, minute = 0, second = 0\<rparr>,
                [CStr ''2024-01-01 12:00:00'', CFloat (Dec 15 1), CFloat (Dec 102 1),
                 CFloat (Dec 98 1), CInt 3, CFloat (Dec 1523 3), CFloat (Dec 41 2),
                 CFloat (Dec 41 2)],
                Dec 1523 3))"
  by code_simp

lemma log_scenario_b:
  "log_data (Dec 15 1) [] [] None scenario_b =
     Inr \<lparr>buffer = [],
          csv_file =
            [header,
             [CStr ''2024-01-01 12:00:00'', CFloat (Dec 15 1), CFloat (Dec 102 1),
              CFloat (Dec 98 1), CInt 3, CFloat (Dec 1523 3), CFloat (Dec 41 2),
              CFloat (Dec 41 2)]],
          flow_values = [Dec 1523 3],
          time_values =
            [\<lparr>year = 2024, month = 1, day = 1, hour = 12, minute = 0, second = 0\<rparr>]\<rparr>"
  by code_simp

text \<open>
  Claim C2. For the frame of Scenario B, which has no \<^verbatim>\<open>VEL:\<close> line, the code does
  not report a missing velocity: the velocity pattern matches inside \<^verbatim>\<open>FVEL: 0.41\<close>,
  \<^verbatim>\<open>parse_block\<close> returns a complete record, and a session that reads these four lines
  on a new file appends the row after the header and pushes the flow and the timestamp.
\<close>

theorem scenario_b_is_logged:
  "VEL_RE ''FVEL: 0.41'' = Some ''0.41'' \<and>
   parse_block scenario_b (Dec 15 1) =
     Inr (Some (\<lparr>year = 2024, month = 1, day = 1, hour = 12, minute = 0, second = 0\<rparr>,
                [CStr ''2024-01-01 12:00:00'', CFloat (Dec 15 1), CFloat (Dec 102 1),
                 CFloat (Dec 98 1), CInt 3, CFloat (Dec 1523 3), CFloat (Dec 41 2),
                 CFloat (Dec 41 2)],
                Dec 1523 3)) \<and>
   log_data (Dec 15 1) [] [] None scenario_b =
     Inr \<lparr>buffer = [],
          csv_file =
            [header,
             [CStr ''2024-01-01 12:00:00'', CFloat (Dec 15 1), CFloat (Dec 102 1),
              CFloat (Dec 98 1), CInt 3, CFloat (Dec 1523 3), CFloat (Dec 41 2),
              CFloat (Dec 41 2)]],
          flow_values = [Dec 1523 3],
          time_values =
            [\<lparr>year = 2024, month = 1, day = 1, hour = 12, minute = 0, second = 0\<rparr>]\<rparr>"
  by (intro conjI) (rule vel_re_fvel_line, rule parse_scenario_b, rule log_scenario_b)

subsection \<open>Extraction is partial\<close>

lemma flow_re_bad_number: "FLOW_RE ''FLOW: 1.2.3'' = Some ''1.2.3''"
  by code_simp

lemma parse_bad_number: "parse_block [''FLOW: 1.2.3''] target_flow = Inl ValueError"
  by code_simp

lemma date_prefix_short: "date_prefix ''01-01-24 12:00''"
  by code_simp

lemma parse_short_date: "parse_block [''01-01-24 12:00''] target_flow = Inl ValueError"
  by code_simp

lemma date_prefix_nines: "date_prefix ''99-99-99''"
  by code_simp

lemma parse_nines: "parse_block [''99-99-99''] target_flow = Inl ValueError"
  by code_simp

lemma log_step_bad_number:
  "log_step target_flow \<lparr>buffer = [''FLOW: 1.2.3''], csv_file = [header], flow_values = [],
                          time_values = []\<rparr> ''FVEL: 0.41'' =
     Inl (ValueError, \<lparr>buffer = [''FLOW: 1.2.3'', ''FVEL: 0.41''], csv_file = [header],
                        flow_values = [], time_values = []\<rparr>)"
  by code_simp

text \<open>
  Claim C10. Extraction is not total: there are frames on which \<^verbatim>\<open>parse_block\<close>
  returns neither a record nor \<^verbatim>\<open>None\<close> but raises. A line whose token of digits and
  dots is matched by the flow pattern and is no number (\<^verbatim>\<open>FLOW: 1.2.3\<close>) raises
  ValueError, and so does a line that passes the test of the two-digit date prefix and does
  not have the format of \<^verbatim>\<open>strptime\<close> (\<^verbatim>\<open>01-01-24 12:00\<close>, \<^verbatim>\<open>99-99-99\<close>).
  The read loop does not catch the error.
\<close>

theorem parse_block_raises:
  "FLOW_RE ''FLOW: 1.2.3'' = Some ''1.2.3'' \<and>
   parse_block [''FLOW: 1.2.3''] target_flow = Inl ValueError \<and>
   date_prefix ''01-01-24 12:00'' \<and>
   parse_block [''01-01-24 12:00''] target_flow = Inl ValueError \<and>
   date_prefix ''99-99-99'' \<and>
   parse_block [''99-99-99''] target_flow = Inl ValueError \<and>
   log_step target_flow \<lparr>buffer = [''FLOW: 1.2.3''], csv_file = [header], flow_values = [],
                          time_values = []\<rparr> ''FVEL: 0.41'' =
     Inl (ValueError, \<lparr>buffer = [''FLOW: 1.2.3'', ''FVEL: 0.41''], csv_file = [header],
                        flow_values = [], time_values = []\<rparr>)"
  by (intro conjI)
    (rule flow_re_bad_number, rule parse_bad_number, rule date_prefix_short,
     rule parse_short_date, rule date_prefix_nines, rule parse_nines, rule log_step_bad_number)


subsection \<open>Completeness of a frame\<close>















text \<open>The frame of Scenario B is one of the frames left out: its only match of the velocity
  pattern is inside \<^verbatim>\<open>FVEL: 0.41\<close>.\<close>

lemma scenario_b_left_out: "vel_only_in_fvel scenario_b \<and> \<not> all_kinds_own scenario_b"
  by code_simp



lemma parse_malformed: "parse_block malformed_frame (Dec 15 1) = Inl ValueError"
  by code_simp


subsection \<open>The last match of each kind\<close>




subsection \<open>The velocity pattern inside the filtered-velocity line\<close>

lemma labelled_FVEL_D:
  "labelled ''FVEL:'' s = Some g \<Longrightarrow> \<exists>cs. s = CHR ''F'' # cs \<and> labelled ''VEL:'' cs = Some g"
  by (cases s) (auto simp: labelled_def split: if_splits option.splits)

lemma labelled_VEL_F: "labelled ''VEL:'' (CHR ''F'' # cs) = None"
  by (simp add: labelled_def)

lemma search_FVEL_VEL:
  "search (labelled ''FVEL:'') s \<noteq> None \<Longrightarrow> search (labelled ''VEL:'') s \<noteq> None"
proof (induction s)
  case Nil
  then show ?case by (simp add: labelled_def)
next
  case (Cons c cs)
  show ?case
  proof (cases "labelled ''FVEL:'' (c # cs)")
    case None
    then have "search (labelled ''FVEL:'') cs \<noteq> None" using Cons.prems by simp
    then have "search (labelled ''VEL:'') cs \<noteq> None" by (rule Cons.IH)
    then show ?thesis by (rule search_Cons_not_None)
  next
    case (Some g)
    then have "labelled ''VEL:'' cs = Some g" using labelled_FVEL_D by fastforce
    then have "search (labelled ''VEL:'') cs = Some g" by (rule search_at_start)
    then show ?thesis using search_Cons_not_None [of "labelled ''VEL:''" cs c] by simp
  qed
qed

lemma FVEL_at_start:
  assumes "labelled ''FVEL:'' l = Some g"
  shows "FVEL_RE l = Some g" and "VEL_RE l = Some g"
proof -
  show "FVEL_RE l = Some g" unfolding FVEL_RE_def using assms by (rule search_at_start)
  from assms obtain cs where l: "l = CHR ''F'' # cs" and v: "labelled ''VEL:'' cs = Some g"
    using labelled_FVEL_D by blast
  show "VEL_RE l = Some g"
    unfolding VEL_RE_def l
    using search_at_start [of "labelled ''VEL:''" cs g] v by (simp add: labelled_VEL_F)
qed

lemma find_stronger:
  "find P xs = Some x \<Longrightarrow> Q x \<Longrightarrow> (\<And>y. Q y \<Longrightarrow> P y) \<Longrightarrow> find Q xs = Some x"
  by (induction xs) (auto split: if_splits)

lemma assemble_SomeD:
  "assemble a t = Some (ts, row, fl) \<Longrightarrow>
     \<exists>v w. vel a = Some v \<and> fvel a = Some w \<and> row ! 6 = CFloat v \<and> row ! 7 = CFloat w"
  by (auto simp: assemble_def split: option.splits)

text \<open>
  Claim C9, as amended. A line that matches the filtered-velocity pattern also matches the
  velocity pattern. If the last line of a frame that matches the velocity pattern begins
  with a match of the filtered-velocity pattern (as \<^verbatim>\<open>FVEL: 0.41\<close> does), then in the
  record extracted from the frame the velocity cell equals the filtered-velocity cell.
\<close>

theorem fvel_line_sets_velocity:
  "(FVEL_RE line \<noteq> None \<longrightarrow> VEL_RE line \<noteq> None) \<and>
   (parse_block frame t = Inr (Some (ts, row, fl)) \<and> last_of Vel frame = Some l \<and>
      labelled ''FVEL:'' l \<noteq> None \<longrightarrow> row ! 6 = row ! 7)"
proof (intro conjI impI)
  assume "FVEL_RE line \<noteq> None"
  then show "VEL_RE line \<noteq> None" unfolding FVEL_RE_def VEL_RE_def by (rule search_FVEL_VEL)
next
  assume h: "parse_block frame t = Inr (Some (ts, row, fl)) \<and> last_of Vel frame = Some l \<and>
      labelled ''FVEL:'' l \<noteq> None"
  then obtain g where g: "labelled ''FVEL:'' l = Some g" by auto
  have same: "line_fvel l = line_vel l"
    by (simp add: line_fvel_def line_vel_def FVEL_at_start [OF g])
  have "find (matches Vel) (rev frame) = Some l" using h by (simp add: last_of_def)
  then have "find (matches FVel) (rev frame) = Some l"
  proof (rule find_stronger)
    show "matches FVel l" by (simp add: FVEL_at_start(1) [OF g])
    show "\<And>y. matches FVel y \<Longrightarrow> matches Vel y"
      using search_FVEL_VEL by (simp add: FVEL_RE_def VEL_RE_def)
  qed
  then have lf: "last_of FVel frame = Some l" by (simp add: last_of_def)
  have a: "assemble (last_match_locals frame) t = Some (ts, row, fl)"
    using h parse_block_Inr [of frame t "Some (ts, row, fl)"] by simp
  from assemble_SomeD [OF a] obtain v w where
    "vel (last_match_locals frame) = Some v" "fvel (last_match_locals frame) = Some w"
    "row ! 6 = CFloat v" "row ! 7 = CFloat w" by blast
  then show "row ! 6 = row ! 7"
    using h lf same by (simp add: last_match_locals_def)
qed


lemma fvel_re_fvel_line: "FVEL_RE ''FVEL: 0.41'' \<noteq> None"
  by code_simp

lemma last_vel_scenario_a: "last_of Vel scenario_a = Some ''FVEL: 0.41''"
  by code_simp

lemma labelled_fvel_line: "labelled ''FVEL:'' ''FVEL: 0.41'' \<noteq> None"
  by code_simp

theorem fvel_line_sets_velocity_witness:
  "FVEL_RE ''FVEL: 0.41'' \<noteq> None \<and> VEL_RE ''FVEL: 0.41'' \<noteq> None \<and>
   parse_block scenario_a (Dec 15 1) =
     Inr (Some (\<lparr>year = 2024, month = 1, day = 1, hour = 12, minute = 0, second = 0\<rparr>,
                [CStr ''2024-01-01 12:00:00'', CFloat (Dec 15 1), CFloat (Dec 102 1),
                 CFloat (Dec 98 1), CInt 3, CFloat (Dec 1523 3), CFloat (Dec 41 2),
                 CFloat (Dec 41 2)],
                Dec 1523 3)) \<and>
   last_of Vel scenario_a = Some ''FVEL: 0.41'' \<and>
   labelled ''FVEL:'' ''FVEL: 0.41'' \<noteq> None \<and>
   [CStr ''2024-01-01 12:00:00'', CFloat (Dec 15 1), CFloat (Dec 102 1),
    CFloat (Dec 98 1), CInt 3, CFloat (Dec 1523 3), CFloat (Dec 41 2),
    CFloat (Dec 41 2)] ! 6 =
   [CStr ''2024-01-01 12:00:00'', CFloat (Dec 15 1), CFloat (Dec 102 1),
    CFloat (Dec 98 1), CInt 3, CFloat (Dec 1523 3), CFloat (Dec 41 2),
    CFloat (Dec 41 2)] ! 7"
  using fvel_line_sets_velocity
      [of "''FVEL: 0.41''" scenario_a "Dec 15 1"
        "\<lparr>year = 2024, month = 1, day = 1, hour = 12, minute = 0, second = 0\<rparr>"
        "[CStr ''2024-01-01 12:00:00'', CFloat (Dec 15 1), CFloat (Dec 102 1),
          CFloat (Dec 98 1), CInt 3, CFloat (Dec 1523 3), CFloat (Dec 41 2),
          CFloat (Dec 41 2)]"
        "Dec 1523 3" "''FVEL: 0.41''"]
    fvel_re_fvel_line parse_scenario_a last_vel_scenario_a labelled_fvel_line
  by blast

text \<open>The claim as stated fails on \<open>overlap_frame\<close>: its last line begins with
  \<^verbatim>\<open>FVEL\<close>, matches the filtered-velocity pattern and is the last match of the
  velocity pattern, and the record has velocity 1 and filtered velocity 2.\<close>

lemma overlap_startswith: "startswith ''FVELVEL: 1 FVEL: 2'' ''FVEL''"
  by code_simp

lemma overlap_fvel: "FVEL_RE ''FVELVEL: 1 FVEL: 2'' = Some ''2''"
  by code_simp

lemma overlap_vel: "VEL_RE ''FVELVEL: 1 FVEL: 2'' = Some ''1''"
  by code_simp

lemma overlap_last_vel: "last_of Vel overlap_frame = Some ''FVELVEL: 1 FVEL: 2''"
  by code_simp

lemma overlap_parse:
  "parse_block overlap_frame (Dec 15 1) =
     Inr (Some (\<lparr>year = 2024, month = 1, day = 1, hour = 12, minute = 0, second = 0\<rparr>,
                [CStr ''2024-01-01 12:00:00'', CFloat (Dec 15 1), CFloat (Dec 102 1),
                 CFloat (Dec 98 1), CInt 3, CFloat (Dec 1523 3), CFloat (Dec 1 0),
                 CFloat (Dec 2 0)],
                Dec 1523 3))"
  by code_simp

theorem velocity_differs_on_fvel_line:
  "startswith ''FVELVEL: 1 FVEL: 2'' ''FVEL'' \<and>
   FVEL_RE ''FVELVEL: 1 FVEL: 2'' = Some ''2'' \<and>
   VEL_RE ''FVELVEL: 1 FVEL: 2'' = Some ''1'' \<and>
   last_of Vel overlap_frame = Some ''FVELVEL: 1 FVEL: 2'' \<and>
   parse_block overlap_frame (Dec 15 1) =
     Inr (Some (\<lparr>year = 2024, month = 1, day = 1, hour = 12, minute = 0, second = 0\<rparr>,
                [CStr ''2024-01-01 12:00:00'', CFloat (Dec 15 1), CFloat (Dec 102 1),
                 CFloat (Dec 98 1), CInt 3, CFloat (Dec 1523 3), CFloat (Dec 1 0),
                 CFloat (Dec 2 0)],
                Dec 1523 3))"
  by (intro conjI)
    (rule overlap_startswith, rule overlap_fvel, rule overlap_vel, rule overlap_last_vel,
     rule overlap_parse)

subsection \<open>The read loop\<close>

lemma log_step_blank: "strip raw = [] \<Longrightarrow> log_step t s raw = Inr s"
  by (simp add: log_step_def)

lemma log_step_plain:
  "strip raw \<noteq> [] \<Longrightarrow> \<not> startswith (strip raw) ''FVEL'' \<Longrightarrow>
     log_step t s raw = Inr (s\<lparr>buffer := buffer s @ [strip raw]\<rparr>)"
  by (simp add: log_step_def Let_def)

lemma log_step_boundary_returns:
  "strip raw \<noteq> [] \<Longrightarrow> startswith (strip raw) ''FVEL'' \<Longrightarrow>
   parse_block (buffer s @ [strip raw]) t = Inr res \<Longrightarrow>
     log_step t s raw =
       Inr (case res of
              None \<Rightarrow> s\<lparr>buffer := []\<rparr>
            | Some (ts, row, fl) \<Rightarrow>
                s\<lparr>buffer := [], csv_file := csv_file s @ [row],
                   flow_values := flow_values s @ [fl], time_values := time_values s @ [ts]\<rparr>)"
  by (simp add: log_step_def Let_def split: option.splits)

lemma log_step_boundary_raises:
  "strip raw \<noteq> [] \<Longrightarrow> startswith (strip raw) ''FVEL'' \<Longrightarrow>
   parse_block (buffer s @ [strip raw]) t = Inl e \<Longrightarrow>
     log_step t s raw = Inl (e, s\<lparr>buffer := buffer s @ [strip raw]\<rparr>)"
  by (simp add: log_step_def Let_def)

lemma log_data_no_reads: "buffer (final (log_data t fvs tvs file [])) = []"
  by (simp add: log_data_def final_def)

lemma strip_blank: "strip ''  '' = []" by code_simp
lemma strip_flow_line: "strip '' FLOW: 1.523 '' = ''FLOW: 1.523''" by code_simp
lemma flow_line_no_boundary: "\<not> startswith ''FLOW: 1.523'' ''FVEL''" by code_simp
lemma strip_fvel_line: "strip ''FVEL: 0.41'' = ''FVEL: 0.41''" by code_simp
lemma fvel_line_boundary: "startswith ''FVEL: 0.41'' ''FVEL''" by code_simp
lemma parse_flow_fvel: "parse_block [''FLOW: 1.5'', ''FVEL: 0.41''] (Dec 15 1) = Inr None" by code_simp
lemma parse_bad_up: "parse_block [''UP:1.2.3,DN:9.8,Q=3'', ''FVEL: 0.41''] (Dec 15 1) = Inl ValueError" by code_simp

text \<open>
  Claim C4, as amended. A frame for which \<^verbatim>\<open>parse_block\<close> returns \<^verbatim>\<open>None\<close>
  (missing fields) is dropped: the buffer is cleared, nothing is written or pushed, and the
  loop goes on with the next line. A frame on which \<^verbatim>\<open>parse_block\<close> raises is not
  recovered: the error leaves the loop, whatever lines would follow, and ends the session.
\<close>

theorem missing_fields_dropped:
  "(strip raw \<noteq> [] \<and> startswith (strip raw) ''FVEL'' \<and>
    parse_block (buffer s @ [strip raw]) t = Inr None \<longrightarrow>
      log_loop t s (raw # rest) = log_loop t (s\<lparr>buffer := []\<rparr>) rest) \<and>
   (strip raw \<noteq> [] \<and> startswith (strip raw) ''FVEL'' \<and>
    parse_block (buffer s @ [strip raw]) t = Inl e \<longrightarrow>
      log_loop t s (raw # rest) = Inl (e, s\<lparr>buffer := buffer s @ [strip raw]\<rparr>))"
  by (simp add: log_step_boundary_returns log_step_boundary_raises)

theorem missing_fields_dropped_witness:
  "strip ''FVEL: 0.41'' \<noteq> [] \<and> startswith (strip ''FVEL: 0.41'') ''FVEL'' \<and>
   parse_block [''FLOW: 1.5'', ''FVEL: 0.41''] (Dec 15 1) = Inr None \<and>
   log_loop (Dec 15 1) (fresh_with [''FLOW: 1.5'']) (''FVEL: 0.41'' # scenario_a) =
     log_loop (Dec 15 1) (fresh_with []) scenario_a \<and>
   parse_block [''UP:1.2.3,DN:9.8,Q=3'', ''FVEL: 0.41''] (Dec 15 1) = Inl ValueError \<and>
   log_loop (Dec 15 1) (fresh_with [''UP:1.2.3,DN:9.8,Q=3'']) (''FVEL: 0.41'' # scenario_a) =
     Inl (ValueError, fresh_with [''UP:1.2.3,DN:9.8,Q=3'', ''FVEL: 0.41''])"
  using missing_fields_dropped [of "''FVEL: 0.41''" "fresh_with [''FLOW: 1.5'']" "Dec 15 1" scenario_a]
    missing_fields_dropped [of "''FVEL: 0.41''" "fresh_with [''UP:1.2.3,DN:9.8,Q=3'']" "Dec 15 1"
      scenario_a ValueError]
    strip_fvel_line fvel_line_boundary parse_flow_fvel parse_bad_up
  by (simp add: fresh_with_def)

text \<open>The claim as stated fails: a session that reads \<open>malformed_frame\<close> and then the
  frame of Scenario A ends with ValueError at the first boundary line and logs nothing.\<close>

lemma log_malformed_then_a:
  "log_data (Dec 15 1) [] [] None (malformed_frame @ scenario_a) =
     Inl (ValueError,
          \<lparr>buffer = malformed_frame, csv_file = [header], flow_values = [],
             time_values = []\<rparr>)"
  by code_simp

theorem malformed_frame_ends_session:
  "parse_block malformed_frame (Dec 15 1) = Inl ValueError \<and>
   log_data (Dec 15 1) [] [] None (malformed_frame @ scenario_a) =
     Inl (ValueError,
          \<lparr>buffer = malformed_frame, csv_file = [header], flow_values = [],
             time_values = []\<rparr>)"
  by (intro conjI) (rule parse_malformed, rule log_malformed_then_a)

text \<open>
  Claim C8, as amended. The buffer starts empty. A line that is blank after stripping
  changes nothing. Every other line is appended to the buffer. At a line that begins with
  \<^verbatim>\<open>FVEL\<close> the buffer with that line is given to \<^verbatim>\<open>parse_block\<close> once; if
  \<^verbatim>\<open>parse_block\<close> returns, with a record or with \<^verbatim>\<open>None\<close>, the buffer is reset
  to empty; if it raises, the loop is left and the buffer is not reset.
\<close>

theorem buffer_lifetime:
  "buffer (final (log_data t fvs tvs file [])) = [] \<and>
   (strip raw = [] \<longrightarrow> log_step t s raw = Inr s) \<and>
   (strip raw \<noteq> [] \<and> \<not> startswith (strip raw) ''FVEL'' \<longrightarrow>
      log_step t s raw = Inr (s\<lparr>buffer := buffer s @ [strip raw]\<rparr>)) \<and>
   (strip raw \<noteq> [] \<and> startswith (strip raw) ''FVEL'' \<and>
    parse_block (buffer s @ [strip raw]) t = Inr res \<longrightarrow>
      log_step t s raw =
        Inr (case res of
               None \<Rightarrow> s\<lparr>buffer := []\<rparr>
             | Some (ts, row, fl) \<Rightarrow>
                 s\<lparr>buffer := [], csv_file := csv_file s @ [row],
                    flow_values := flow_values s @ [fl],
                    time_values := time_values s @ [ts]\<rparr>)) \<and>
   (strip raw \<noteq> [] \<and> startswith (strip raw) ''FVEL'' \<and>
    parse_block (buffer s @ [strip raw]) t = Inl e \<longrightarrow>
      log_step t s raw = Inl (e, s\<lparr>buffer := buffer s @ [strip raw]\<rparr>))"
  using log_data_no_reads log_step_blank log_step_plain log_step_boundary_returns
    log_step_boundary_raises
  by blast

theorem buffer_lifetime_witness:
  "strip ''  '' = [] \<and> log_step (Dec 15 1) (fresh_with [''FLOW: 1.5'']) ''  '' = Inr (fresh_with [''FLOW: 1.5'']) \<and>
   strip '' FLOW: 1.523 '' \<noteq> [] \<and> \<not> startswith (strip '' FLOW: 1.523 '') ''FVEL'' \<and>
   log_step (Dec 15 1) (fresh_with []) '' FLOW: 1.523 '' = Inr (fresh_with [''FLOW: 1.523'']) \<and>
   strip ''FVEL: 0.41'' \<noteq> [] \<and> startswith (strip ''FVEL: 0.41'') ''FVEL'' \<and>
   parse_block [''FLOW: 1.5'', ''FVEL: 0.41''] (Dec 15 1) = Inr None \<and>
   log_step (Dec 15 1) (fresh_with [''FLOW: 1.5'']) ''FVEL: 0.41'' = Inr (fresh_with []) \<and>
   parse_block [''UP:1.2.3,DN:9.8,Q=3'', ''FVEL: 0.41''] (Dec 15 1) = Inl ValueError \<and>
   log_step (Dec 15 1) (fresh_with [''UP:1.2.3,DN:9.8,Q=3'']) ''FVEL: 0.41'' =
     Inl (ValueError, fresh_with [''UP:1.2.3,DN:9.8,Q=3'', ''FVEL: 0.41''])"
  using buffer_lifetime [of "Dec 15 1" _ _ _ "''  ''" "fresh_with [''FLOW: 1.5'']"]
    buffer_lifetime [of "Dec 15 1" _ _ _ "'' FLOW: 1.523 ''" "fresh_with []"]
    buffer_lifetime [of "Dec 15 1" _ _ _ "''FVEL: 0.41''" "fresh_with [''FLOW: 1.5'']" None]
    buffer_lifetime [of "Dec 15 1" _ _ _ "''FVEL: 0.41''" "fresh_with [''UP:1.2.3,DN:9.8,Q=3'']" _ ValueError]
    strip_blank strip_flow_line flow_line_no_boundary strip_fvel_line fvel_line_boundary parse_flow_fvel parse_bad_up
  by (simp add: fresh_with_def)

text \<open>The claim as stated fails: at a boundary line whose frame holds a date prefix that
  \<^verbatim>\<open>strptime\<close> refuses, the extraction fails and the buffer is not reset.\<close>

lemma log_step_bad_date:
  "log_step (Dec 15 1) (fresh_with [''01-01-24 12:00'']) ''FVEL: 0.41'' =
     Inl (ValueError, fresh_with [''01-01-24 12:00'', ''FVEL: 0.41''])"
  by code_simp

theorem buffer_kept_on_error:
  "startswith ''FVEL: 0.41'' ''FVEL'' \<and>
   log_step (Dec 15 1) (fresh_with [''01-01-24 12:00'']) ''FVEL: 0.41'' =
     Inl (ValueError, fresh_with [''01-01-24 12:00'', ''FVEL: 0.41''])"
  by (intro conjI) (rule fvel_line_boundary, rule log_step_bad_date)

subsection \<open>The record store\<close>

lemma log_step_shift:
  "log_step t (shift c f g s) raw =
     (case log_step t s raw of Inl (e, s') \<Rightarrow> Inl (e, shift c f g s') | Inr s' \<Rightarrow> Inr (shift c f g s'))"
  by (simp add: log_step_def shift_def Let_def split: sum.splits option.splits prod.splits)

lemma log_loop_shift:
  "log_loop t (shift c f g s) reads =
     (case log_loop t s reads of Inl (e, s') \<Rightarrow> Inl (e, shift c f g s') | Inr s' \<Rightarrow> Inr (shift c f g s'))"
proof (induction reads arbitrary: s)
  case Nil
  then show ?case by simp
next
  case (Cons raw reads)
  then show ?case
    by (cases "log_step t s raw") (auto simp: log_step_shift split: sum.splits)
qed

lemma csv_file_shift: "csv_file (shift c f g s) = c @ csv_file s"
  by (simp add: shift_def)

lemma final_shift:
  "csv_file (final (log_loop t (shift c f g s) reads)) = c @ csv_file (final (log_loop t s reads))"
  by (cases "log_loop t s reads") (auto simp: log_loop_shift final_def csv_file_shift)

lemma log_data_rows:
  "csv_file (final (log_data t fvs tvs file reads)) = init_csv file @ session_rows t reads"
proof -
  have "\<lparr>buffer = [], csv_file = init_csv file, flow_values = fvs, time_values = tvs\<rparr> =
        shift (init_csv file) fvs tvs
          \<lparr>buffer = [], csv_file = [], flow_values = [], time_values = []\<rparr>"
    by (simp add: shift_def)
  then show ?thesis
    by (simp add: log_data_def session_rows_def final_shift)
qed

lemma init_csv_None: "init_csv None = [header]"
  by (simp add: init_csv_def)

lemma init_csv_Some: "init_csv (Some rows) = rows"
  by (simp add: init_csv_def)

lemma assemble_row:
  "assemble a t = Some (ts, row, fl) \<Longrightarrow>
     \<exists>u d n v w. row = [CStr (strftime ts), CFloat t, CFloat u, CFloat d, CInt n, CFloat fl,
                        CFloat v, CFloat w]"
  by (auto simp: assemble_def split: option.splits)

lemma parse_block_row:
  assumes "parse_block frame t = Inr (Some (ts, row, fl))"
  shows "data_row t row"
proof -
  from assms obtain a where "assemble a t = Some (ts, row, fl)"
    by (auto simp: parse_block_def bind_err_Inr_iff)
  from assemble_row [OF this] show ?thesis
    by (auto simp: data_row_def header_def)
qed

lemma log_step_data_rows:
  "list_all (data_row t) (csv_file s) \<Longrightarrow> list_all (data_row t) (csv_file (final (log_step t s raw)))"
  by (auto simp: log_step_def final_def Let_def parse_block_row split: sum.splits option.splits)

lemma log_loop_data_rows:
  "list_all (data_row t) (csv_file s) \<Longrightarrow>
     list_all (data_row t) (csv_file (final (log_loop t s reads)))"
proof (induction reads arbitrary: s)
  case Nil
  then show ?case by (simp add: final_def)
next
  case (Cons raw reads)
  show ?case
  proof (cases "log_step t s raw")
    case (Inl x)
    then show ?thesis using log_step_data_rows [OF Cons.prems, of raw] by simp
  next
    case (Inr s')
    then have "list_all (data_row t) (csv_file s')"
      using log_step_data_rows [OF Cons.prems, of raw] by (simp add: final_def)
    then show ?thesis using Inr Cons.IH by simp
  qed
qed

lemma session_rows_data: "list_all (data_row t) (session_rows t reads)"
  unfolding session_rows_def by (rule log_loop_data_rows) simp

lemma count_header_rows: "list_all (data_row t) rows \<Longrightarrow> count_list rows header = 0"
  by (induction rows) (auto simp: data_row_def)

lemma length_header: "length header = 8"
  by (simp add: header_def)

text \<open>
  Claim C7. \<^verbatim>\<open>init_csv\<close> writes the header of eight columns when no file existed and
  writes nothing to a file that exists, whatever its content. After a session on a new file
  and a second session, with any target, on the file that the first has left, the file is
  the header, the rows of the first session and the rows of the second: the header occurs
  once, and every row carries the target of its session.
\<close>

theorem header_written_once:
  "length header = 8 \<and> init_csv None = [header] \<and> init_csv (Some rows) = rows \<and>
   csv_file (final (log_data t2 fvs2 tvs2
       (Some (csv_file (final (log_data t1 fvs1 tvs1 None reads1)))) reads2)) =
     header # session_rows t1 reads1 @ session_rows t2 reads2 \<and>
   count_list (header # session_rows t1 reads1 @ session_rows t2 reads2) header = 1 \<and>
   list_all (data_row t1) (session_rows t1 reads1) \<and>
   list_all (data_row t2) (session_rows t2 reads2)"
  by (simp add: length_header init_csv_None init_csv_Some log_data_rows session_rows_data
      count_header_rows [OF session_rows_data])

end
